theory Spec2Isabelle
  imports Main "HOL-Library.Word"
begin

section \<open>JavaScript strings and values\<close>

text \<open>
  A JavaScript string is a sequence of 16-bit code units. String literals of the source
  are written \<open>js ''...''\<close>. The character classes are those the source relies on:
  \<^item> \<open>isLineTerminator\<close>: what the regular expression atom \<^verbatim>\<open>.\<close> refuses (LF, CR, LS, PS);
  \<^item> \<open>isWhiteSpace\<close>: what \<^verbatim>\<open>String.prototype.trim\<close> strips (WhiteSpace and LineTerminator);
  \<^item> \<open>isWordChar\<close>: the class \<^verbatim>\<open>\w\<close> of a pattern without flags, \<^verbatim>\<open>[A-Za-z0-9_]\<close>.
\<close>

type_synonym jsstring = "16 word list"

definition js :: "string \<Rightarrow> jsstring" where
  "js s = map of_char s"

definition isLineTerminator :: "16 word \<Rightarrow> bool" where
  "isLineTerminator c = (c = 0x0A \<or> c = 0x0D \<or> c = 0x2028 \<or> c = 0x2029)"

definition isWhiteSpace :: "16 word \<Rightarrow> bool" where
  "isWhiteSpace c =
     (c = 0x09 \<or> c = 0x0B \<or> c = 0x0C \<or> c = 0x20 \<or> c = 0xA0 \<or> c = 0x1680
      \<or> (0x2000 \<le> c \<and> c \<le> 0x200A) \<or> c = 0x202F \<or> c = 0x205F \<or> c = 0x3000
      \<or> c = 0xFEFF \<or> isLineTerminator c)"

definition isWordChar :: "16 word \<Rightarrow> bool" where
  "isWordChar c =
     ((0x41 \<le> c \<and> c \<le> 0x5A) \<or> (0x61 \<le> c \<and> c \<le> 0x7A)
      \<or> (0x30 \<le> c \<and> c \<le> 0x39) \<or> c = 0x5F)"

text \<open>\<^verbatim>\<open>s.trim()\<close>: leading and trailing white space removed.\<close>

definition trim :: "jsstring \<Rightarrow> jsstring" where
  "trim s = rev (dropWhile isWhiteSpace (rev (dropWhile isWhiteSpace s)))"

text \<open>\<^verbatim>\<open>s.startsWith(p)\<close>.\<close>

definition startsWith :: "jsstring \<Rightarrow> jsstring \<Rightarrow> bool" where
  "startsWith s p = (take (length p) s = p)"

text \<open>
  The values handlers and parsers exchange: what JSON can express, and \<open>undefined\<close>.
  A number is a double; \<open>JNum s\<close> is the number that \<^verbatim>\<open>Number.prototype.toString\<close> prints
  as \<open>s\<close> (\<^verbatim>\<open>0\<close>, \<^verbatim>\<open>-1.5\<close>, \<^verbatim>\<open>1e+21\<close>, \<^verbatim>\<open>NaN\<close>): the text determines the number, but for
  the sign of zero, which nothing here tells apart. An object is its list of own
  properties in insertion order.
\<close>

datatype jv =
    JUndefined
  | JNull
  | JBool bool
  | JNum jsstring
  | JStr jsstring
  | JArr "jv list"
  | JObj "(jsstring \<times> jv) list"

text \<open>
  Truthiness, as \<^verbatim>\<open>if (v)\<close>, \<^verbatim>\<open>!v\<close>, \<^verbatim>\<open>a && b\<close> and \<^verbatim>\<open>a || b\<close> test it. The falsy
  numbers are the two zeros, both printed \<^verbatim>\<open>0\<close>, and \<^verbatim>\<open>NaN\<close>.
\<close>

fun truthy :: "jv \<Rightarrow> bool" where
  "truthy JUndefined = False"
| "truthy JNull = False"
| "truthy (JBool b) = b"
| "truthy (JNum s) = (s \<noteq> js ''0'' \<and> s \<noteq> js ''NaN'')"
| "truthy (JStr s) = (s \<noteq> [])"
| "truthy (JArr _) = True"
| "truthy (JObj _) = True"

text \<open>
  Thrown values. Every throw of the modelled code is an \<^verbatim>\<open>Error\<close> built by the source
  (with its message) or an error the engine raises (a \<^verbatim>\<open>TypeError\<close> for a property of
  \<open>undefined\<close> or a call of a non-function, a \<^verbatim>\<open>SyntaxError\<close> of \<^verbatim>\<open>JSON.parse\<close>).
  The message of an error the engine raises is the engine's own wording; the model puts a
  description in its place, and no property below depends on it.
\<close>

datatype error =
    Error jsstring
  | TypeError jsstring
  | SyntaxError jsstring

fun message :: "error \<Rightarrow> jsstring" where
  "message (Error m) = m"
| "message (TypeError m) = m"
| "message (SyntaxError m) = m"

text \<open>
  Property read \<^verbatim>\<open>v.k\<close>: a \<^verbatim>\<open>TypeError\<close> on \<open>undefined\<close> and \<open>null\<close>, the own
  property of an object (\<open>undefined\<close> when it has none), \<open>undefined\<close> on the other values
  (inherited members such as \<^verbatim>\<open>length\<close> are not read by the modelled code).
\<close>

fun getProp :: "jv \<Rightarrow> jsstring \<Rightarrow> error + jv" where
  "getProp JUndefined k = Inl (TypeError (js ''Cannot read properties of undefined''))"
| "getProp JNull k = Inl (TypeError (js ''Cannot read properties of null''))"
| "getProp (JObj fs) k = Inr (case map_of fs k of Some v \<Rightarrow> v | None \<Rightarrow> JUndefined)"
| "getProp _ k = Inr JUndefined"

section \<open>The function-call pattern\<close>

text \<open>
  The default of \<^verbatim>\<open>config.functionPattern\<close> is
  \<^verbatim>\<open>new RegExp("^FUNCTION:(\\w+):(.+)$")\<close>, without flags: \<^verbatim>\<open>^\<close> and \<^verbatim>\<open>$\<close> are the
  ends of the input and \<^verbatim>\<open>.\<close> refuses the line terminators. \<^verbatim>\<open>\w+\<close> is greedy and
  followed by a colon, which is no word character, so the only length at which the
  match can go on is the whole run of word characters: the name is that run, and it
  must be non-empty. \<^verbatim>\<open>(.+)$\<close> must then take all the rest, at least one code unit,
  none a line terminator. \<open>functionPattern s\<close> is \<^verbatim>\<open>s.match(pattern)\<close>: the two groups,
  or \<open>None\<close> for \<^verbatim>\<open>null\<close>. Lemma \<open>functionPattern_iff\<close> below states the language.
\<close>

definition functionPattern :: "jsstring \<Rightarrow> (jsstring \<times> jsstring) option" where
  "functionPattern s =
     (if take 9 s = js ''FUNCTION:'' then
        (let rest = drop 9 s;
             funcName = takeWhile isWordChar rest
         in (case dropWhile isWordChar rest of
               [] \<Rightarrow> None
             | c # rawArgs \<Rightarrow>
                 if funcName \<noteq> [] \<and> c = 0x3A \<and> rawArgs \<noteq> []
                    \<and> list_all (\<lambda>d. \<not> isLineTerminator d) rawArgs
                 then Some (funcName, rawArgs) else None))
      else None)"

lemma js_FUNCTION: "js ''FUNCTION:'' = [70, 85, 78, 67, 84, 73, 79, 78, 58]"
  by (simp add: js_def)

lemma colon_not_word: "\<not> isWordChar 0x3A"
  by (simp add: isWordChar_def)

lemma takeWhile_word_colon:
  "list_all isWordChar n \<Longrightarrow> takeWhile isWordChar (n @ 0x3A # a) = n"
  by (induction n) (simp_all add: colon_not_word)

lemma dropWhile_word_colon:
  "list_all isWordChar n \<Longrightarrow> dropWhile isWordChar (n @ 0x3A # a) = 0x3A # a"
  by (induction n) (simp_all add: colon_not_word)

lemma functionPattern_match:
  assumes "n \<noteq> []" "list_all isWordChar n" "a \<noteq> []"
    and "list_all (\<lambda>d. \<not> isLineTerminator d) a"
  shows "functionPattern (js ''FUNCTION:'' @ n @ 0x3A # a) = Some (n, a)"
  using assms
  by (simp add: functionPattern_def js_FUNCTION takeWhile_word_colon dropWhile_word_colon)

lemma functionPattern_sound:
  assumes "functionPattern s = Some (n, a)"
  shows "s = js ''FUNCTION:'' @ n @ 0x3A # a \<and> n \<noteq> [] \<and> list_all isWordChar n
         \<and> a \<noteq> [] \<and> list_all (\<lambda>d. \<not> isLineTerminator d) a"
proof -
  from assms have pre: "take 9 s = js ''FUNCTION:''"
    by (simp add: functionPattern_def split: if_splits)
  obtain c r where dw: "dropWhile isWordChar (drop 9 s) = c # r"
    using assms pre by (auto simp: functionPattern_def Let_def split: list.splits)
  from assms pre dw have facts: "takeWhile isWordChar (drop 9 s) = n" "r = a" "c = 0x3A"
    "n \<noteq> []" "a \<noteq> []" "list_all (\<lambda>d. \<not> isLineTerminator d) a"
    by (auto simp: functionPattern_def Let_def split: if_splits)
  have "drop 9 s = takeWhile isWordChar (drop 9 s) @ dropWhile isWordChar (drop 9 s)"
    by simp
  then have "drop 9 s = n @ 0x3A # a"
    using dw facts by simp
  moreover have "s = take 9 s @ drop 9 s"
    by simp
  ultimately have "s = js ''FUNCTION:'' @ n @ 0x3A # a"
    using pre by simp
  moreover have "list_all isWordChar n"
    using facts(1) by (auto simp: list_all_iff dest: set_takeWhileD)
  ultimately show ?thesis
    using facts by simp
qed

lemma functionPattern_iff:
  "functionPattern s = Some (n, a) \<longleftrightarrow>
     s = js ''FUNCTION:'' @ n @ 0x3A # a \<and> n \<noteq> [] \<and> list_all isWordChar n
     \<and> a \<noteq> [] \<and> list_all (\<lambda>d. \<not> isLineTerminator d) a"
  using functionPattern_sound functionPattern_match by blast

lemma trim_id:
  assumes "s \<noteq> []" "\<not> isWhiteSpace (hd s)" "\<not> isWhiteSpace (last s)"
  shows "trim s = s"
proof -
  from assms(1,2) have "dropWhile isWhiteSpace s = s"
    by (cases s) simp_all
  moreover from assms(1,3) have "dropWhile isWhiteSpace (rev s) = rev s"
    by (cases "rev s") (simp_all add: last_rev [symmetric] hd_rev)
  ultimately show ?thesis
    by (simp add: trim_def)
qed

section \<open>The outside world\<close>

text \<open>
  What a handler can do to the server's surroundings is start a subprocess
  (\<^verbatim>\<open>execAsync\<close>, the promisified \<^verbatim>\<open>child_process.exec\<close>) and send an HTTP request
  (\<^verbatim>\<open>fetch\<close>). Both are libraries: their answers are the fields of \<open>env\<close>, and every call
  is recorded in the \<open>world\<close>, so that "nothing was spawned" is a statement about the
  world a handler returns. \<^verbatim>\<open>JSON.parse\<close> is a library too: \<open>None\<close> is its
  \<^verbatim>\<open>SyntaxError\<close>. Console output is not modelled.
\<close>

record request =
  req_method :: jsstring
  req_headers :: "(jsstring \<times> jsstring) list"
  req_body :: "jv option"

record response =
  ok :: bool
  status :: nat
  statusText :: jsstring
  resp_headers :: "(jsstring \<times> jsstring) list"
  bodyText :: "error + jsstring"

record world =
  spawned :: "(jsstring \<times> nat \<times> nat) list"
  requested :: "(jsstring \<times> request) list"

record env =
  execAsync :: "jsstring \<Rightarrow> nat \<Rightarrow> nat \<Rightarrow> error + (jsstring \<times> jsstring)"
  fetch :: "jsstring \<Rightarrow> request \<Rightarrow> error + response"
  JSON_parse :: "jsstring \<Rightarrow> jv option"

type_synonym handler = "jv \<Rightarrow> world \<Rightarrow> (error + jv) \<times> world"

type_synonym parser = "jsstring \<Rightarrow> error + jv"

section \<open>The function registry (FunctionRegistry)\<close>

text \<open>
  A definition as the callers of \<^verbatim>\<open>register\<close> pass it: \<^verbatim>\<open>{handler, parseArgs, description}\<close>.
  \<^verbatim>\<open>registerAPI\<close> and its siblings pass \<^verbatim>\<open>config.parseArgs\<close> on as it is, and the legacy
  registration passes the user's object on as it is, so a member can be missing
  (\<open>None\<close> is \<open>undefined\<close>). \<^verbatim>\<open>register\<close> stores \<^verbatim>\<open>{type, name, ...definition}\<close>
  under the key \<^verbatim>\<open>name\<close>. (A definition object with a member \<^verbatim>\<open>type\<close> or \<^verbatim>\<open>name\<close> of its
  own would overwrite these two members of the stored object, not the key; the framework
  passes no such definition, and the model has none.)
\<close>

record fdef =
  handler :: "handler option"
  parseArgs :: "parser option"
  description :: "jsstring option"

record entry = fdef +
  type :: jsstring
  name :: jsstring

text \<open>
  \<^verbatim>\<open>this.functions\<close> is a \<^verbatim>\<open>Map\<close>: its entries in insertion order. \<^verbatim>\<open>Map.prototype.set\<close>
  replaces the value of a key that is present, where it stands, and appends a new key.
\<close>

type_synonym registry = "(jsstring \<times> entry) list"

fun map_set :: "'k \<Rightarrow> 'v \<Rightarrow> ('k \<times> 'v) list \<Rightarrow> ('k \<times> 'v) list" where
  "map_set k v [] = [(k, v)]"
| "map_set k v ((k', v') # m) = (if k' = k then (k, v) # m else (k', v') # map_set k v m)"

definition register :: "jsstring \<Rightarrow> jsstring \<Rightarrow> fdef \<Rightarrow> registry \<Rightarrow> registry" where
  "register ty nm dfn functions =
     map_set nm \<lparr>handler = handler dfn, parseArgs = parseArgs dfn,
                 description = description dfn, type = ty, name = nm\<rparr> functions"

definition get :: "jsstring \<Rightarrow> registry \<Rightarrow> entry option" where
  "get nm functions = map_of functions nm"

definition getAll :: "registry \<Rightarrow> (jsstring \<times> jsstring \<times> jsstring option) list" where
  "getAll functions = map (\<lambda>(nm, d). (nm, type d, description d)) functions"

subsection \<open>The built-in browser functions\<close>

definition showAlert_handler :: handler where
  "showAlert_handler msg w =
     (Inr (JObj [(js ''success'', JBool True), (js ''browserAction'', JStr (js ''alert'')),
                 (js ''data'', JObj [(js ''message'', msg)])]), w)"

definition openWindow_handler :: handler where
  "openWindow_handler url w =
     (Inr (JObj [(js ''success'', JBool True), (js ''browserAction'', JStr (js ''openWindow'')),
                 (js ''data'', JObj [(js ''url'', url)])]), w)"

definition showModal_handler :: handler where
  "showModal_handler url w =
     (Inr (JObj [(js ''success'', JBool True), (js ''browserAction'', JStr (js ''modal'')),
                 (js ''data'', JObj [(js ''url'', url)])]), w)"

definition speak_handler :: handler where
  "speak_handler txt w =
     (Inr (JObj [(js ''success'', JBool True), (js ''browserAction'', JStr (js ''speak'')),
                 (js ''data'', JObj [(js ''text'', txt)])]), w)"

text \<open>\<^verbatim>\<open>parseArgs: (raw) => raw.trim()\<close>, the parser of all four.\<close>

definition trim_parseArgs :: parser where
  "trim_parseArgs raw = Inr (JStr (trim raw))"

definition registerBuiltInFunctions :: "registry \<Rightarrow> registry" where
  "registerBuiltInFunctions functions =
     register (js ''browser'') (js ''speak'')
       \<lparr>handler = Some speak_handler, parseArgs = Some trim_parseArgs,
        description = Some (js ''Use text-to-speech to speak text aloud'')\<rparr>
     (register (js ''browser'') (js ''showModal'')
       \<lparr>handler = Some showModal_handler, parseArgs = Some trim_parseArgs,
        description = Some (js ''Display a modal with embedded content'')\<rparr>
     (register (js ''browser'') (js ''openWindow'')
       \<lparr>handler = Some openWindow_handler, parseArgs = Some trim_parseArgs,
        description = Some (js ''Open a URL in a new browser window'')\<rparr>
     (register (js ''browser'') (js ''showAlert'')
       \<lparr>handler = Some showAlert_handler, parseArgs = Some trim_parseArgs,
        description = Some (js ''Show an alert dialog in the browser'')\<rparr>
      functions)))"

text \<open>The constructor: an empty \<^verbatim>\<open>Map\<close>, then the built-ins.\<close>

definition FunctionRegistry_new :: registry where
  "FunctionRegistry_new = registerBuiltInFunctions []"

text \<open>
  The first framework file keeps its functions in a plain object, \<^verbatim>\<open>config.functions\<close>.
  \<^verbatim>\<open>registerBrowserFunctions\<close> builds the object of the four browser functions and
  merges it over the user's: \<^verbatim>\<open>{ ...this.config.functions, ...browserFunctions }\<close>.
\<close>

type_synonym functions_object = "(jsstring \<times> fdef) list"

definition spread :: "('k \<times> 'v) list \<Rightarrow> ('k \<times> 'v) list \<Rightarrow> ('k \<times> 'v) list" where
  "spread a b = fold (\<lambda>(k, v). map_set k v) b a"

definition browserFunctions :: functions_object where
  "browserFunctions =
     [(js ''showAlert'',
         \<lparr>handler = Some showAlert_handler, parseArgs = Some trim_parseArgs, description = None\<rparr>),
      (js ''openWindow'',
         \<lparr>handler = Some openWindow_handler, parseArgs = Some trim_parseArgs, description = None\<rparr>),
      (js ''showModal'',
         \<lparr>handler = Some showModal_handler, parseArgs = Some trim_parseArgs, description = None\<rparr>),
      (js ''speak'',
         \<lparr>handler = Some speak_handler, parseArgs = Some trim_parseArgs, description = None\<rparr>)]"

definition registerBrowserFunctions :: "functions_object \<Rightarrow> functions_object" where
  "registerBrowserFunctions functions = spread functions browserFunctions"

text \<open>
  A property read \<^verbatim>\<open>obj[key]\<close> on a plain object finds the own property, and otherwise
  the members every object inherits from \<^verbatim>\<open>Object.prototype\<close>: they are truthy and have
  no \<^verbatim>\<open>parseArgs\<close>.
\<close>

datatype 'a member = Own 'a | Inherited | Absent

definition objectPrototypeKeys :: "jsstring list" where
  "objectPrototypeKeys =
     map js [''constructor'', ''hasOwnProperty'', ''isPrototypeOf'', ''propertyIsEnumerable'',
             ''toLocaleString'', ''toString'', ''valueOf'', ''__proto__'', ''__defineGetter__'',
             ''__defineSetter__'', ''__lookupGetter__'', ''__lookupSetter__'']"

definition objectMember :: "(jsstring \<times> 'b) list \<Rightarrow> jsstring \<Rightarrow> 'b member" where
  "objectMember obj key =
     (case map_of obj key of
        Some v \<Rightarrow> Own v
      | None \<Rightarrow> if key \<in> set objectPrototypeKeys then Inherited else Absent)"

section \<open>Detecting a function call\<close>

text \<open>The value \<^verbatim>\<open>{ function: funcName, args }\<close>.\<close>

record call =
  fn :: jsstring
  args :: jv

text \<open>\<^verbatim>\<open>func.parseArgs(rawArgs)\<close>: calling a missing member is a \<^verbatim>\<open>TypeError\<close>.\<close>

definition callParseArgs :: "'a fdef_scheme \<Rightarrow> jsstring \<Rightarrow> error + jv" where
  "callParseArgs func rawArgs =
     (case parseArgs func of
        None \<Rightarrow> Inl (TypeError (js ''parseArgs is not a function''))
      | Some p \<Rightarrow> p rawArgs)"

text \<open>
  \<^verbatim>\<open>detectFunctionCall\<close> of the registry-based framework. The pattern is a parameter
  (\<^verbatim>\<open>this.config.functionPattern\<close>); \<open>functionPattern\<close> is its default. \<^verbatim>\<open>text.trim()\<close>
  on anything but a string is a \<^verbatim>\<open>TypeError\<close>, which this function does not catch.
  An error of the parser is caught and logged, and the function returns \<^verbatim>\<open>null\<close>.
\<close>

definition detectFunctionCall ::
  "(jsstring \<Rightarrow> (jsstring \<times> jsstring) option) \<Rightarrow> registry \<Rightarrow> jv \<Rightarrow> error + call option" where
  "detectFunctionCall pattern functions txt =
     (case txt of
        JStr s \<Rightarrow>
          (case pattern (trim s) of
             Some (funcName, rawArgs) \<Rightarrow>
               (case get funcName functions of
                  Some func \<Rightarrow>
                    (case callParseArgs func rawArgs of
                       Inr a \<Rightarrow> Inr (Some \<lparr>fn = funcName, args = a\<rparr>)
                     | Inl e \<Rightarrow> Inr None)
                | None \<Rightarrow> Inr None)
           | None \<Rightarrow> Inr None)
      | _ \<Rightarrow> Inl (TypeError (js ''text.trim is not a function'')))"

text \<open>
  \<^verbatim>\<open>detectFunctionCall\<close> of the first framework file: \<^verbatim>\<open>if (!text) return null\<close> comes
  first, and the functions are the members of the plain object \<^verbatim>\<open>config.functions\<close>.
\<close>

definition fw_detectFunctionCall ::
  "(jsstring \<Rightarrow> (jsstring \<times> jsstring) option) \<Rightarrow> functions_object \<Rightarrow> jv \<Rightarrow> error + call option" where
  "fw_detectFunctionCall pattern functions txt =
     (if \<not> truthy txt then Inr None
      else (case txt of
        JStr s \<Rightarrow>
          (case pattern (trim s) of
             Some (funcName, rawArgs) \<Rightarrow>
               (case objectMember functions funcName of
                  Own func \<Rightarrow>
                    (case callParseArgs func rawArgs of
                       Inr a \<Rightarrow> Inr (Some \<lparr>fn = funcName, args = a\<rparr>)
                     | Inl e \<Rightarrow> Inr None)
                | Inherited \<Rightarrow> Inr None
                | Absent \<Rightarrow> Inr None)
           | None \<Rightarrow> Inr None)
      | _ \<Rightarrow> Inl (TypeError (js ''text.trim is not a function''))))"

text \<open>\<^verbatim>\<open>func.handler(args)\<close>: calling a missing member is a \<^verbatim>\<open>TypeError\<close>.\<close>

definition callHandler :: "'a fdef_scheme \<Rightarrow> handler" where
  "callHandler func a w =
     (case handler func of
        None \<Rightarrow> (Inl (TypeError (js ''handler is not a function'')), w)
      | Some h \<Rightarrow> h a w)"

section \<open>Command functions (registerCommand)\<close>

text \<open>
  \<^verbatim>\<open>config.command\<close> is a string or a function of the arguments (which may throw);
  \<^verbatim>\<open>config.allowedCommands\<close> is absent or an array of prefixes (an array is truthy, the
  empty one too); \<^verbatim>\<open>config.timeout || 10000\<close> and \<^verbatim>\<open>config.maxBuffer || 1024 * 1024\<close>
  take the default for an absent value and for zero.
\<close>

datatype command_spec = StaticCommand jsstring | DynamicCommand "jv \<Rightarrow> error + jsstring"

record command_config =
  command :: command_spec
  allowedCommands :: "jsstring list option"
  timeout :: "nat option"
  maxBuffer :: "nat option"
  command_parseArgs :: "parser option"
  command_description :: "jsstring option"

record security =
  allowCommands :: bool
  allowScripts :: bool

text \<open>\<^verbatim>\<open>this.config.security?.allowCommands\<close>, as a condition.\<close>

definition securityAllowCommands :: "security option \<Rightarrow> bool" where
  "securityAllowCommands sec = (case sec of None \<Rightarrow> False | Some s \<Rightarrow> allowCommands s)"

definition orDefault :: "nat option \<Rightarrow> nat \<Rightarrow> nat" where
  "orDefault v d = (case v of None \<Rightarrow> d | Some n \<Rightarrow> if n = 0 then d else n)"

text \<open>\<^verbatim>\<open>typeof config.command === 'function' ? config.command(args) : config.command\<close>.\<close>

definition resolveCommand :: "command_spec \<Rightarrow> jv \<Rightarrow> error + jsstring" where
  "resolveCommand c a = (case c of StaticCommand s \<Rightarrow> Inr s | DynamicCommand f \<Rightarrow> f a)"

text \<open>The value the \<^verbatim>\<open>catch\<close> block returns.\<close>

definition commandFailure :: "command_config \<Rightarrow> error \<Rightarrow> jv" where
  "commandFailure config e =
     JObj [(js ''success'', JBool False), (js ''error'', JStr (message e)),
           (js ''command'',
              (case command config of
                 DynamicCommand f \<Rightarrow> JStr (js ''dynamic'')
               | StaticCommand s \<Rightarrow> JStr s))]"

text \<open>
  The handler \<^verbatim>\<open>registerCommand\<close> builds. Everything runs inside \<^verbatim>\<open>try\<close>: the security
  flag, the command, the allow-list, and then \<^verbatim>\<open>execAsync\<close>, the one step that reaches the
  world.
\<close>

definition commandHandler :: "env \<Rightarrow> security option \<Rightarrow> command_config \<Rightarrow> handler" where
  "commandHandler ev sec config a w =
     (if \<not> securityAllowCommands sec
      then (Inr (commandFailure config (Error (js ''Command execution is disabled for security''))), w)
      else
        (case resolveCommand (command config) a of
           Inl e \<Rightarrow> (Inr (commandFailure config e), w)
         | Inr cmd \<Rightarrow>
             if (case allowedCommands config of
                   None \<Rightarrow> False
                 | Some allowed \<Rightarrow> \<not> list_ex (\<lambda>p. startsWith cmd p) allowed)
             then (Inr (commandFailure config (Error (js ''Command not allowed: '' @ cmd))), w)
             else
               (let t = orDefault (timeout config) 10000;
                    b = orDefault (maxBuffer config) (1024 * 1024);
                    w' = w\<lparr>spawned := spawned w @ [(cmd, t, b)]\<rparr>
                in (case execAsync ev cmd t b of
                      Inl e \<Rightarrow> (Inr (commandFailure config e), w')
                    | Inr (out, err) \<Rightarrow>
                        (Inr (JObj [(js ''success'', JBool True), (js ''stdout'', JStr out),
                                    (js ''stderr'', JStr err), (js ''command'', JStr cmd)]), w')))))"

definition registerCommand ::
  "env \<Rightarrow> security option \<Rightarrow> jsstring \<Rightarrow> command_config \<Rightarrow> registry \<Rightarrow> registry" where
  "registerCommand ev sec nm config functions =
     register (js ''command'') nm
       \<lparr>handler = Some (commandHandler ev sec config), parseArgs = command_parseArgs config,
        description = command_description config\<rparr> functions"

section \<open>API functions (registerAPI)\<close>

text \<open>The decimal digits of an HTTP status code, a small integer, as a template literal
  prints it.\<close>

fun showNat :: "nat \<Rightarrow> jsstring" where
  "showNat n = (if n < 10 then [48 + of_nat n] else showNat (n div 10) @ [48 + of_nat (n mod 10)])"

declare showNat.simps [simp del]

text \<open>
  \<^verbatim>\<open>config.endpoint\<close> is a string or a function of the arguments; \<^verbatim>\<open>config.body\<close>
  and \<^verbatim>\<open>config.transform\<close> are optional functions. A transform that throws is caught by
  the handler's \<^verbatim>\<open>try\<close>; one that returns a rejected promise is not, since the handler
  returns the promise without awaiting it.
\<close>

datatype endpoint_spec = StaticEndpoint jsstring | DynamicEndpoint "jv \<Rightarrow> error + jsstring"

datatype transformed = Returned jv | Thrown error | Rejected error

record api_config =
  endpoint :: endpoint_spec
  api_method :: "jsstring option"
  api_headers :: "(jsstring \<times> jsstring) list"
  api_body :: "(jv \<Rightarrow> error + jv) option"
  transform :: "(jv \<Rightarrow> jv \<Rightarrow> transformed) option"
  api_parseArgs :: "parser option"
  api_description :: "jsstring option"

definition resolveEndpoint :: "endpoint_spec \<Rightarrow> jv \<Rightarrow> error + jsstring" where
  "resolveEndpoint c a = (case c of StaticEndpoint s \<Rightarrow> Inr s | DynamicEndpoint f \<Rightarrow> f a)"

text \<open>\<^verbatim>\<open>...(config.body && { body: JSON.stringify(config.body(args)) })\<close>.\<close>

definition buildBody :: "(jv \<Rightarrow> error + jv) option \<Rightarrow> jv \<Rightarrow> error + jv option" where
  "buildBody b a =
     (case b of
        None \<Rightarrow> Inr None
      | Some f \<Rightarrow> (case f a of Inl e \<Rightarrow> Inl e | Inr v \<Rightarrow> Inr (Some v)))"

text \<open>The \<^verbatim>\<open>options\<close> of the request: the method, the two fixed headers under the
  configured ones, the body.\<close>

definition apiOptions :: "api_config \<Rightarrow> jv option \<Rightarrow> request" where
  "apiOptions config b =
     \<lparr>req_method = (case api_method config of
                      None \<Rightarrow> js ''GET''
                    | Some m \<Rightarrow> if m = [] then js ''GET'' else m),
      req_headers = spread [(js ''User-Agent'', js ''CorticalAI/2.0''),
                            (js ''Accept'', js ''application/json'')] (api_headers config),
      req_body = b\<rparr>"

definition apiFailure :: "error \<Rightarrow> jv" where
  "apiFailure e = JObj [(js ''success'', JBool False), (js ''error'', JStr (message e))]"

definition apiHandler :: "env \<Rightarrow> api_config \<Rightarrow> handler" where
  "apiHandler ev config a w =
     (case resolveEndpoint (endpoint config) a of
        Inl e \<Rightarrow> (Inr (apiFailure e), w)
      | Inr url \<Rightarrow>
          (case buildBody (api_body config) a of
             Inl e \<Rightarrow> (Inr (apiFailure e), w)
           | Inr b \<Rightarrow>
               (let options = apiOptions config b;
                    w' = w\<lparr>requested := requested w @ [(url, options)]\<rparr>
                in (case fetch ev url options of
                      Inl e \<Rightarrow> (Inr (apiFailure e), w')
                    | Inr resp \<Rightarrow>
                        if \<not> ok resp
                        then (Inr (apiFailure (Error (js ''HTTP '' @ showNat (status resp) @ js '': ''
                                                       @ statusText resp))), w')
                        else
                          (case bodyText resp of
                             Inl e \<Rightarrow> (Inr (apiFailure e), w')
                           | Inr txt \<Rightarrow>
                               (case JSON_parse ev txt of
                                  None \<Rightarrow>
                                    (Inr (JObj [(js ''success'', JBool False),
                                                (js ''error'', JStr (js ''Invalid response format''))]),
                                     w')
                                | Some data \<Rightarrow>
                                    (case transform config of
                                       None \<Rightarrow> (Inr data, w')
                                     | Some f \<Rightarrow>
                                         (case f data a of
                                            Returned v \<Rightarrow> (Inr v, w')
                                          | Thrown e \<Rightarrow> (Inr (apiFailure e), w')
                                          | Rejected e \<Rightarrow> (Inl e, w')))))))))"

definition registerAPI :: "env \<Rightarrow> jsstring \<Rightarrow> api_config \<Rightarrow> registry \<Rightarrow> registry" where
  "registerAPI ev nm config functions =
     register (js ''api'') nm
       \<lparr>handler = Some (apiHandler ev config), parseArgs = api_parseArgs config,
        description = api_description config\<rparr> functions"

section \<open>The event stream\<close>

text \<open>
  Each event is the object the source hands to \<^verbatim>\<open>JSON.stringify\<close> and writes as one
  \<^verbatim>\<open>data:\<close> record: \<^verbatim>\<open>{type: "token", text}\<close>, \<^verbatim>\<open>{type: "status", text}\<close>,
  \<^verbatim>\<open>{type: "function_result", data}\<close>, \<^verbatim>\<open>{type: "search_results", results, totalResults}\<close>,
  \<^verbatim>\<open>{type: "browser_action", action, data}\<close>, \<^verbatim>\<open>{type: "error", error}\<close>, \<^verbatim>\<open>{type: "done"}\<close>.
\<close>

datatype event =
    Token jv
  | Status jsstring
  | FunctionResult jv
  | SearchResults jv jv
  | BrowserAction jv jv
  | ErrorEvent jv
  | Done

text \<open>
  The response object \<^verbatim>\<open>res\<close>. \<^verbatim>\<open>res.end()\<close> sets \<^verbatim>\<open>res.writableEnded\<close>. A
  \<^verbatim>\<open>res.write\<close> before that puts the event on the connection (\<open>written\<close>); a
  \<^verbatim>\<open>res.write\<close> after it sends nothing, and the runtime answers it with a write-after-end
  error: the model keeps these calls apart, in \<open>refused\<close>, in the order they were made.
\<close>

record sse =
  written :: "event list"
  writableEnded :: bool
  refused :: "event list"

definition res_write :: "event \<Rightarrow> sse \<Rightarrow> sse" where
  "res_write e r =
     (if writableEnded r then r\<lparr>refused := refused r @ [e]\<rparr>
      else r\<lparr>written := written r @ [e]\<rparr>)"

definition res_end :: "sse \<Rightarrow> sse" where
  "res_end r = r\<lparr>writableEnded := True\<rparr>"

text \<open>The response as the route receives it.\<close>

definition fresh :: sse where
  "fresh = \<lparr>written = [], writableEnded = False, refused = []\<rparr>"

section \<open>Template literals\<close>

text \<open>
  \<^verbatim>\<open>`${v}`\<close> is \<^verbatim>\<open>ToString(v)\<close>: a string is itself, a number the text
  \<^verbatim>\<open>Number.prototype.toString\<close> prints for it, an array its elements joined by commas
  (\<open>undefined\<close> and \<^verbatim>\<open>null\<close> elements print as nothing), an object \<^verbatim>\<open>[object Object]\<close>.
\<close>

fun joinWith :: "'a list \<Rightarrow> 'a list list \<Rightarrow> 'a list" where
  "joinWith sep [] = []"
| "joinWith sep [x] = x"
| "joinWith sep (x # y # ys) = x @ sep @ joinWith sep (y # ys)"

fun ToString :: "jv \<Rightarrow> jsstring" where
  "ToString JUndefined = js ''undefined''"
| "ToString JNull = js ''null''"
| "ToString (JBool b) = (if b then js ''true'' else js ''false'')"
| "ToString (JNum s) = s"
| "ToString (JStr s) = s"
| "ToString (JArr xs) =
     joinWith (js '','') (map (\<lambda>x. if x = JUndefined \<or> x = JNull then [] else ToString x) xs)"
| "ToString (JObj fs) = js ''[object Object]''"

section \<open>The chat route of the registry-based framework\<close>

text \<open>
  \<^verbatim>\<open>getBrowserActionConfirmation(action, data)\<close> builds the object of the four
  confirmations first, so it reads \<^verbatim>\<open>data.message\<close>, \<^verbatim>\<open>data.url\<close> and \<^verbatim>\<open>data.text\<close>
  whatever the action is (a \<^verbatim>\<open>TypeError\<close> when \<^verbatim>\<open>data\<close> is \<open>undefined\<close> or \<^verbatim>\<open>null\<close>),
  then returns \<^verbatim>\<open>confirmations[action] || `Browser action completed: ${action}`\<close>. The
  code unit 0x22 is the double quote. The result is given as \<^verbatim>\<open>JSON.stringify\<close> will
  print it: an inherited member is a function, which is left out as \<open>undefined\<close> is
  (\<^verbatim>\<open>__proto__\<close> is the empty prototype object).
\<close>

definition getBrowserActionConfirmation :: "jv \<Rightarrow> jv \<Rightarrow> error + jv" where
  "getBrowserActionConfirmation action data =
     (case getProp data (js ''message'') of
        Inl e \<Rightarrow> Inl e
      | Inr m \<Rightarrow>
     (case getProp data (js ''url'') of
        Inl e \<Rightarrow> Inl e
      | Inr u \<Rightarrow>
     (case getProp data (js ''text'') of
        Inl e \<Rightarrow> Inl e
      | Inr t \<Rightarrow>
          (let confirmations =
                 [(js ''alert'', js ''Alert displayed: '' @ [0x22] @ ToString m @ [0x22]),
                  (js ''openWindow'', js ''Opening new tab: '' @ ToString u),
                  (js ''modal'', js ''Opening modal with: '' @ ToString u),
                  (js ''speak'', js ''Speaking: '' @ [0x22] @ ToString t @ [0x22])]
           in Inr (case objectMember confirmations (ToString action) of
                     Own c \<Rightarrow> JStr c
                   | Inherited \<Rightarrow>
                       if ToString action = js ''__proto__'' then JObj [] else JUndefined
                   | Absent \<Rightarrow> JStr (js ''Browser action completed: '' @ ToString action))))))"

text \<open>
  The statements of the inner \<^verbatim>\<open>try\<close> after \<^verbatim>\<open>const result = await func.handler(...)\<close>:
  the events for the result, then \<^verbatim>\<open>done\<close> and \<^verbatim>\<open>res.end()\<close>. An error leaves what was
  written before it and goes to the \<^verbatim>\<open>catch\<close>.
\<close>

definition relayResult :: "jv \<Rightarrow> sse \<Rightarrow> error option \<times> sse" where
  "relayResult result r =
     (case getProp result (js ''success'') of
        Inl e \<Rightarrow> (Some e, r)
      | Inr success \<Rightarrow>
     (case getProp result (js ''browserAction'') of
        Inl e \<Rightarrow> (Some e, r)
      | Inr browserAction \<Rightarrow>
     (case getProp result (js ''data'') of
        Inl e \<Rightarrow> (Some e, r)
      | Inr d \<Rightarrow>
     (case getProp result (js ''results'') of
        Inl e \<Rightarrow> (Some e, r)
      | Inr results \<Rightarrow>
          if truthy success \<and> truthy browserAction then
            (let r1 = res_write (BrowserAction browserAction d) r
             in (case getBrowserActionConfirmation browserAction d of
                   Inl e \<Rightarrow> (Some e, r1)
                 | Inr c \<Rightarrow> (None, res_end (res_write Done (res_write (Token c) r1)))))
          else if truthy results \<or> truthy success then
            (None, res_end (res_write Done (res_write (FunctionResult result) r)))
          else (None, res_end (res_write Done r))))))"

text \<open>The \<^verbatim>\<open>catch\<close> blocks of the route: an error event, then \<^verbatim>\<open>res.end()\<close>.\<close>

definition failWith :: "error \<Rightarrow> sse \<Rightarrow> sse" where
  "failWith e r = res_end (res_write (ErrorEvent (JStr (message e))) r)"

text \<open>
  The handler of \<^verbatim>\<open>POST /api/v1/chat/stream\<close>, from \<^verbatim>\<open>detectFunctionCall(message)\<close> on.
  \<open>streamLLMResponse\<close>, the branch for a message that is no function call, talks to the
  model backend and is a parameter: it returns the response object and the world it
  leaves, and the error it rejects with, if any.
\<close>

definition chat_stream ::
  "(jsstring \<Rightarrow> (jsstring \<times> jsstring) option) \<Rightarrow> registry
   \<Rightarrow> (sse \<Rightarrow> world \<Rightarrow> error option \<times> sse \<times> world) \<Rightarrow> jv \<Rightarrow> sse \<Rightarrow> world \<Rightarrow> sse \<times> world" where
  "chat_stream pattern functions streamLLMResponse msg r w =
     (case detectFunctionCall pattern functions msg of
        Inl e \<Rightarrow> (failWith e r, w)
      | Inr None \<Rightarrow>
          (case streamLLMResponse r w of
             (None, r', w') \<Rightarrow> (r', w')
           | (Some e, r', w') \<Rightarrow> (failWith e r', w'))
      | Inr (Some functionCall) \<Rightarrow>
          (let r1 = res_write (Status (js ''Processing your request...'')) r
           in (case get (fn functionCall) functions of
                 None \<Rightarrow>
                   (failWith (Error (js ''Function '' @ fn functionCall @ js '' not found'')) r1, w)
               | Some func \<Rightarrow>
                   (case callHandler func (args functionCall) w of
                      (Inl e, w') \<Rightarrow> (failWith e r1, w')
                    | (Inr result, w') \<Rightarrow>
                        (case relayResult result r1 of
                           (None, r2) \<Rightarrow> (r2, w')
                         | (Some e, r2) \<Rightarrow> (failWith e r2, w'))))))"

section \<open>The stream relay of the first framework file (processOllamaStream)\<close>

text \<open>
  What can happen to the relay: the backend's body emits \<^verbatim>\<open>data\<close>, \<^verbatim>\<open>end\<close> or
  \<^verbatim>\<open>error\<close>, or the timer set with \<^verbatim>\<open>config.llm.streamTimeout\<close> fires.
\<close>

datatype stimulus = Data jsstring | End | StreamError error | Timeout

datatype settlement = Pending | Resolved | RejectedWith error

record relay =
  buffer :: jsstring
  res :: sse
  timerSet :: bool
  promise :: settlement

text \<open>\<^verbatim>\<open>resolve()\<close> and \<^verbatim>\<open>reject(e)\<close> settle a pending promise and do nothing to a settled one.\<close>

definition settle :: "settlement \<Rightarrow> settlement \<Rightarrow> settlement" where
  "settle s p = (if p = Pending then s else p)"

text \<open>\<^verbatim>\<open>s.split('\n')\<close>: the pieces between the line feeds, one more than there are line feeds.\<close>

fun splitLines :: "jsstring \<Rightarrow> jsstring list" where
  "splitLines [] = [[]]"
| "splitLines (c # cs) =
     (if c = 0x0A then [] # splitLines cs
      else (case splitLines cs of
              [] \<Rightarrow> [[c]]
            | l # ls \<Rightarrow> (c # l) # ls))"

text \<open>
  The loop over the complete lines of a chunk. \<open>parse\<close> is \<^verbatim>\<open>JSON.parse\<close>; its
  \<^verbatim>\<open>SyntaxError\<close>, and the \<^verbatim>\<open>TypeError\<close> of reading a member of \<^verbatim>\<open>null\<close>, are caught and
  logged, and the loop goes on. A record with a truthy \<^verbatim>\<open>done\<close> clears the timer, writes
  \<^verbatim>\<open>done\<close>, ends the response, resolves and returns: the lines after it are dropped.
  Neither write of this loop looks at \<^verbatim>\<open>res.writableEnded\<close>.
\<close>

fun processLines :: "(jsstring \<Rightarrow> jv option) \<Rightarrow> jsstring list \<Rightarrow> relay \<Rightarrow> relay" where
  "processLines parse [] st = st"
| "processLines parse (line # rest) st =
     (if trim line = [] then processLines parse rest st
      else
        (case parse line of
           None \<Rightarrow> processLines parse rest st
         | Some parsed \<Rightarrow>
             (case getProp parsed (js ''response'') of
                Inl e \<Rightarrow> processLines parse rest st
              | Inr response \<Rightarrow>
                  (let st1 = (if truthy response
                              then st\<lparr>res := res_write (Token response) (res st)\<rparr> else st)
                   in (case getProp parsed (js ''done'') of
                         Inl e \<Rightarrow> processLines parse rest st1
                       | Inr d \<Rightarrow>
                           if truthy d
                           then st1\<lparr>timerSet := False,
                                    res := res_end (res_write Done (res st1)),
                                    promise := settle Resolved (promise st1)\<rparr>
                           else processLines parse rest st1)))))"

text \<open>
  One stimulus. The \<^verbatim>\<open>end\<close>, \<^verbatim>\<open>error\<close> and timeout callbacks write only under
  \<^verbatim>\<open>if (!res.writableEnded)\<close>; a timer that was cleared, or has fired, does not fire.
\<close>

definition onData :: "(jsstring \<Rightarrow> jv option) \<Rightarrow> jsstring \<Rightarrow> relay \<Rightarrow> relay" where
  "onData parse chunk st =
     (let lines = splitLines (buffer st @ chunk)
      in processLines parse (butlast lines) (st\<lparr>buffer := last lines\<rparr>))"

definition onEnd :: "relay \<Rightarrow> relay" where
  "onEnd st =
     st\<lparr>timerSet := False,
        res := (if \<not> writableEnded (res st) then res_end (res_write Done (res st)) else res st),
        promise := settle Resolved (promise st)\<rparr>"

definition onError :: "error \<Rightarrow> relay \<Rightarrow> relay" where
  "onError e st =
     st\<lparr>timerSet := False,
        res := (if \<not> writableEnded (res st)
                then res_end (res_write (ErrorEvent (JStr (message e))) (res st)) else res st),
        promise := settle (RejectedWith e) (promise st)\<rparr>"

definition onTimeout :: "relay \<Rightarrow> relay" where
  "onTimeout st =
     (if timerSet st
      then st\<lparr>timerSet := False,
              res := (if \<not> writableEnded (res st)
                      then res_end (res_write (ErrorEvent (JStr (js ''Response timeout''))) (res st))
                      else res st),
              promise := settle (RejectedWith (Error (js ''Timeout''))) (promise st)\<rparr>
      else st)"

fun step :: "(jsstring \<Rightarrow> jv option) \<Rightarrow> relay \<Rightarrow> stimulus \<Rightarrow> relay" where
  "step parse st (Data chunk) = onData parse chunk st"
| "step parse st End = onEnd st"
| "step parse st (StreamError e) = onError e st"
| "step parse st Timeout = onTimeout st"

text \<open>The relay over everything that happens to it, from the empty buffer and the
  timer set.\<close>

definition processOllamaStream :: "(jsstring \<Rightarrow> jv option) \<Rightarrow> stimulus list \<Rightarrow> sse \<Rightarrow> relay" where
  "processOllamaStream parse stimuli r =
     foldl (step parse) \<lparr>buffer = [], res = r, timerSet = True, promise = Pending\<rparr> stimuli"

section \<open>Properties of the registry\<close>

lemma map_of_map_set: "map_of (map_set k v m) k = Some v"
  by (induction k v m rule: map_set.induct) auto

lemma map_of_map_set_other: "k' \<noteq> k \<Longrightarrow> map_of (map_set k v m) k' = map_of m k'"
  by (induction k v m rule: map_set.induct) auto

lemma keys_map_set: "fst ` set (map_set k v m) = insert k (fst ` set m)"
  by (induction k v m rule: map_set.induct) auto

lemma distinct_map_set: "distinct (map fst m) \<Longrightarrow> distinct (map fst (map_set k v m))"
  by (induction k v m rule: map_set.induct) (auto simp: keys_map_set)

lemma filter_key_absent: "k \<notin> fst ` set m \<Longrightarrow> filter (\<lambda>p. fst p = k) m = []"
  by (induction m) auto

lemma count_map_set:
  "distinct (map fst m) \<Longrightarrow> length (filter (\<lambda>p. fst p = k) (map_set k v m)) = 1"
  by (induction k v m rule: map_set.induct) (auto simp: filter_key_absent)

lemma length_map_set_present:
  "k \<in> fst ` set m \<Longrightarrow> length (map_set k v m) = length m"
  by (induction k v m rule: map_set.induct) auto

lemma builtin_entries:
  "get (js ''showAlert'') FunctionRegistry_new =
     Some \<lparr>handler = Some showAlert_handler, parseArgs = Some trim_parseArgs,
        description = Some (js ''Show an alert dialog in the browser''),
        type = js ''browser'', name = js ''showAlert''\<rparr>"
  "get (js ''openWindow'') FunctionRegistry_new =
     Some \<lparr>handler = Some openWindow_handler, parseArgs = Some trim_parseArgs,
        description = Some (js ''Open a URL in a new browser window''),
        type = js ''browser'', name = js ''openWindow''\<rparr>"
  "get (js ''showModal'') FunctionRegistry_new =
     Some \<lparr>handler = Some showModal_handler, parseArgs = Some trim_parseArgs,
        description = Some (js ''Display a modal with embedded content''),
        type = js ''browser'', name = js ''showModal''\<rparr>"
  "get (js ''speak'') FunctionRegistry_new =
     Some \<lparr>handler = Some speak_handler, parseArgs = Some trim_parseArgs,
        description = Some (js ''Use text-to-speech to speak text aloud''),
        type = js ''browser'', name = js ''speak''\<rparr>"
  by (simp_all add: FunctionRegistry_new_def registerBuiltInFunctions_def register_def get_def js_def)

lemma map_of_map_set_if: "map_of (map_set k v m) k' = (if k' = k then Some v else map_of m k')"
  by (simp add: map_of_map_set map_of_map_set_other)

lemma browser_members:
  "map_of (registerBrowserFunctions fs) (js ''showAlert'') =
     Some \<lparr>handler = Some showAlert_handler, parseArgs = Some trim_parseArgs, description = None\<rparr>"
  "map_of (registerBrowserFunctions fs) (js ''openWindow'') =
     Some \<lparr>handler = Some openWindow_handler, parseArgs = Some trim_parseArgs, description = None\<rparr>"
  "map_of (registerBrowserFunctions fs) (js ''showModal'') =
     Some \<lparr>handler = Some showModal_handler, parseArgs = Some trim_parseArgs, description = None\<rparr>"
  "map_of (registerBrowserFunctions fs) (js ''speak'') =
     Some \<lparr>handler = Some speak_handler, parseArgs = Some trim_parseArgs, description = None\<rparr>"
  by (simp_all add: registerBrowserFunctions_def spread_def browserFunctions_def js_def
      map_of_map_set_if)


text \<open>
  C7. Registering twice under one name leaves exactly one entry for the name, the second
  definition in effect: \<^verbatim>\<open>get\<close> returns the second definition (stored with the second
  type and the name), one entry of the registry has that key, and the second call did not
  add an entry. The keys of a \<^verbatim>\<open>Map\<close> are distinct; \<open>distinct_map_set\<close> shows that
  \<^verbatim>\<open>register\<close> keeps them so.
\<close>

theorem register_twice:
  assumes "distinct (map fst functions)"
  shows "get nm (register t2 nm d2 (register t1 nm d1 functions))
           = Some \<lparr>handler = handler d2, parseArgs = parseArgs d2, description = description d2,
                   type = t2, name = nm\<rparr>
       \<and> length (filter (\<lambda>p. fst p = nm) (register t2 nm d2 (register t1 nm d1 functions))) = 1
       \<and> length (register t2 nm d2 (register t1 nm d1 functions))
           = length (register t1 nm d1 functions)"
proof -
  have "distinct (map fst (register t1 nm d1 functions))"
    using assms by (simp add: register_def distinct_map_set)
  then have "length (filter (\<lambda>p. fst p = nm) (register t2 nm d2 (register t1 nm d1 functions))) = 1"
    by (simp add: register_def count_map_set)
  moreover have "nm \<in> fst ` set (register t1 nm d1 functions)"
    by (simp add: register_def keys_map_set)
  ultimately show ?thesis
    by (simp add: get_def register_def map_of_map_set length_map_set_present)
qed



theorem register_twice_witness:
  "get (js ''showAlert'')
     (register (js ''api'') (js ''showAlert'') \<lparr>handler = None, parseArgs = None, description = None\<rparr>
       (register (js ''script'') (js ''showAlert'')
          \<lparr>handler = Some speak_handler, parseArgs = None, description = None\<rparr> FunctionRegistry_new))
     = Some \<lparr>handler = None, parseArgs = None, description = None, type = js ''api'',
             name = js ''showAlert''\<rparr>
   \<and> length (filter (\<lambda>p. fst p = js ''showAlert'')
     (register (js ''api'') (js ''showAlert'') \<lparr>handler = None, parseArgs = None, description = None\<rparr>
       (register (js ''script'') (js ''showAlert'')
          \<lparr>handler = Some speak_handler, parseArgs = None, description = None\<rparr> FunctionRegistry_new)))
     = 1"
proof -
  have d: "distinct (map fst FunctionRegistry_new)"
    by (simp add: FunctionRegistry_new_def registerBuiltInFunctions_def register_def js_def)
  show ?thesis
    using register_twice [OF d, of "js ''showAlert''" "js ''api''"
        "\<lparr>handler = None, parseArgs = None, description = None\<rparr>" "js ''script''"
        "\<lparr>handler = Some speak_handler, parseArgs = None, description = None\<rparr>"]
    by simp
qed

text \<open>
  C9. Each of the four built-in browser handlers, as registered at construction (in the
  registry, and in the object \<^verbatim>\<open>registerBrowserFunctions\<close> merges over any user functions),
  answers every string with a success result that carries its action name and the string
  as the single member of \<^verbatim>\<open>data\<close>; it returns no error, and the world it returns is the
  world it was given.
\<close>

theorem browser_handlers_pass_through:
  "map_option (\<lambda>f. callHandler f (JStr s) w) (get (js ''showAlert'') FunctionRegistry_new) =
     Some (Inr (JObj [(js ''success'', JBool True), (js ''browserAction'', JStr (js ''alert'')),
                      (js ''data'', JObj [(js ''message'', JStr s)])]), w)
   \<and> map_option (\<lambda>f. callHandler f (JStr s) w) (get (js ''openWindow'') FunctionRegistry_new) =
     Some (Inr (JObj [(js ''success'', JBool True), (js ''browserAction'', JStr (js ''openWindow'')),
                      (js ''data'', JObj [(js ''url'', JStr s)])]), w)
   \<and> map_option (\<lambda>f. callHandler f (JStr s) w) (get (js ''showModal'') FunctionRegistry_new) =
     Some (Inr (JObj [(js ''success'', JBool True), (js ''browserAction'', JStr (js ''modal'')),
                      (js ''data'', JObj [(js ''url'', JStr s)])]), w)
   \<and> map_option (\<lambda>f. callHandler f (JStr s) w) (get (js ''speak'') FunctionRegistry_new) =
     Some (Inr (JObj [(js ''success'', JBool True), (js ''browserAction'', JStr (js ''speak'')),
                      (js ''data'', JObj [(js ''text'', JStr s)])]), w)
   \<and> map_option (\<lambda>f. callHandler f (JStr s) w) (map_of (registerBrowserFunctions fs) (js ''showAlert'')) =
     Some (Inr (JObj [(js ''success'', JBool True), (js ''browserAction'', JStr (js ''alert'')),
                      (js ''data'', JObj [(js ''message'', JStr s)])]), w)
   \<and> map_option (\<lambda>f. callHandler f (JStr s) w) (map_of (registerBrowserFunctions fs) (js ''openWindow'')) =
     Some (Inr (JObj [(js ''success'', JBool True), (js ''browserAction'', JStr (js ''openWindow'')),
                      (js ''data'', JObj [(js ''url'', JStr s)])]), w)
   \<and> map_option (\<lambda>f. callHandler f (JStr s) w) (map_of (registerBrowserFunctions fs) (js ''showModal'')) =
     Some (Inr (JObj [(js ''success'', JBool True), (js ''browserAction'', JStr (js ''modal'')),
                      (js ''data'', JObj [(js ''url'', JStr s)])]), w)
   \<and> map_option (\<lambda>f. callHandler f (JStr s) w) (map_of (registerBrowserFunctions fs) (js ''speak'')) =
     Some (Inr (JObj [(js ''success'', JBool True), (js ''browserAction'', JStr (js ''speak'')),
                      (js ''data'', JObj [(js ''text'', JStr s)])]), w)"
  by (simp add: builtin_entries browser_members callHandler_def showAlert_handler_def
      openWindow_handler_def showModal_handler_def speak_handler_def)


section \<open>Properties of the executors\<close>

lemma get_register: "get nm (register ty nm d functions) =
  Some \<lparr>handler = handler d, parseArgs = parseArgs d, description = description d,
         type = ty, name = nm\<rparr>"
  by (simp add: get_def register_def map_of_map_set)


text \<open>
  C4. Whatever the command definition (its command, its allow-list) and the parsed
  arguments, with the \<^verbatim>\<open>allowCommands\<close> flag off (or no \<^verbatim>\<open>security\<close> section) the handler
  of the registered function returns the failure
  \<^verbatim>\<open>{success: false, error: "Command execution is disabled for security", command}\<close>
  and hands the world back as it was: nothing was spawned.
\<close>

theorem command_disabled:
  assumes "\<not> securityAllowCommands sec"
  shows "map_option (\<lambda>f. callHandler f a w) (get nm (registerCommand ev sec nm config functions))
         = Some (Inr (JObj [(js ''success'', JBool False),
                            (js ''error'', JStr (js ''Command execution is disabled for security'')),
                            (js ''command'',
                               (case command config of
                                  DynamicCommand f \<Rightarrow> JStr (js ''dynamic'')
                                | StaticCommand s \<Rightarrow> JStr s))]), w)"
  using assms
  by (simp add: registerCommand_def get_register callHandler_def commandHandler_def
      commandFailure_def)


theorem command_disabled_witness:
  "map_option (\<lambda>f. callHandler f (JStr (js ''example.com'')) \<lparr>spawned = [], requested = []\<rparr>)
     (get (js ''ping'')
        (registerCommand
           \<lparr>execAsync = (\<lambda>c t b. Inr (js ''pong'', [])), fetch = (\<lambda>u r. Inl (Error [])),
            JSON_parse = (\<lambda>s. None)\<rparr>
           (Some \<lparr>allowCommands = False, allowScripts = False\<rparr>) (js ''ping'')
           \<lparr>command = StaticCommand (js ''ping -c 1 example.com''),
            allowedCommands = Some [js ''ping''], timeout = None, maxBuffer = None,
            command_parseArgs = Some trim_parseArgs, command_description = None\<rparr>
           FunctionRegistry_new))
   = Some (Inr (JObj [(js ''success'', JBool False),
                      (js ''error'', JStr (js ''Command execution is disabled for security'')),
                      (js ''command'', JStr (js ''ping -c 1 example.com''))]),
           \<lparr>spawned = [], requested = []\<rparr>)"
proof -
  have h: "\<not> securityAllowCommands (Some \<lparr>allowCommands = False, allowScripts = False\<rparr>)"
    by (simp add: securityAllowCommands_def)
  show ?thesis
    using command_disabled [OF h, of "JStr (js ''example.com'')" "\<lparr>spawned = [], requested = []\<rparr>"
        "js ''ping''"
        "\<lparr>execAsync = (\<lambda>c t b. Inr (js ''pong'', [])), fetch = (\<lambda>u r. Inl (Error [])),
            JSON_parse = (\<lambda>s. None)\<rparr>"
        "\<lparr>command = StaticCommand (js ''ping -c 1 example.com''),
            allowedCommands = Some [js ''ping''], timeout = None, maxBuffer = None,
            command_parseArgs = Some trim_parseArgs, command_description = None\<rparr>"
        FunctionRegistry_new]
    by simp
qed


text \<open>
  C5, as amended. With an allow-list configured, when the command computed for the
  arguments starts with none of the listed prefixes, the handler returns a failure and
  the world as it was: no subprocess is started, whatever the security flag. With the
  flag on the error message is \<^verbatim>\<open>"Command not allowed: " + command\<close>; with the flag off
  the call has failed at the flag, before the command is computed, and the message is
  \<^verbatim>\<open>"Command execution is disabled for security"\<close>.
\<close>

theorem command_not_allowed:
  assumes "allowedCommands config = Some allowed"
    and "resolveCommand (command config) a = Inr cmd"
    and "\<not> list_ex (\<lambda>p. startsWith cmd p) allowed"
  shows "map_option (\<lambda>f. callHandler f a w) (get nm (registerCommand ev sec nm config functions))
         = Some (Inr (commandFailure config
                   (Error (if securityAllowCommands sec then js ''Command not allowed: '' @ cmd
                           else js ''Command execution is disabled for security''))), w)"
  using assms
  by (simp add: registerCommand_def get_register callHandler_def commandHandler_def)


theorem command_not_allowed_witness:
  "map_option (\<lambda>f. callHandler f (JStr (js ''/'')) \<lparr>spawned = [], requested = []\<rparr>)
     (get (js ''run'')
        (registerCommand
           \<lparr>execAsync = (\<lambda>c t b. Inr (js ''done'', [])), fetch = (\<lambda>u r. Inl (Error [])),
            JSON_parse = (\<lambda>s. None)\<rparr>
           (Some \<lparr>allowCommands = True, allowScripts = False\<rparr>) (js ''run'')
           \<lparr>command = DynamicCommand (\<lambda>a. Inr (js ''rm -rf '' @ (case a of JStr s \<Rightarrow> s | _ \<Rightarrow> []))),
            allowedCommands = Some [js ''ping''], timeout = None, maxBuffer = None,
            command_parseArgs = Some trim_parseArgs, command_description = None\<rparr>
           FunctionRegistry_new))
   = Some (Inr (JObj [(js ''success'', JBool False),
                      (js ''error'', JStr (js ''Command not allowed: rm -rf /'')),
                      (js ''command'', JStr (js ''dynamic''))]),
           \<lparr>spawned = [], requested = []\<rparr>)
   \<and> map_option (\<lambda>f. callHandler f (JStr (js ''/'')) \<lparr>spawned = [], requested = []\<rparr>)
     (get (js ''run'')
        (registerCommand
           \<lparr>execAsync = (\<lambda>c t b. Inr (js ''done'', [])), fetch = (\<lambda>u r. Inl (Error [])),
            JSON_parse = (\<lambda>s. None)\<rparr>
           None (js ''run'')
           \<lparr>command = DynamicCommand (\<lambda>a. Inr (js ''rm -rf '' @ (case a of JStr s \<Rightarrow> s | _ \<Rightarrow> []))),
            allowedCommands = Some [js ''ping''], timeout = None, maxBuffer = None,
            command_parseArgs = Some trim_parseArgs, command_description = None\<rparr>
           FunctionRegistry_new))
   = Some (Inr (JObj [(js ''success'', JBool False),
                      (js ''error'', JStr (js ''Command execution is disabled for security'')),
                      (js ''command'', JStr (js ''dynamic''))]),
           \<lparr>spawned = [], requested = []\<rparr>)"
proof -
  let ?config = "\<lparr>command = DynamicCommand (\<lambda>a. Inr (js ''rm -rf '' @ (case a of JStr s \<Rightarrow> s | _ \<Rightarrow> []))),
            allowedCommands = Some [js ''ping''], timeout = None, maxBuffer = None,
            command_parseArgs = Some trim_parseArgs, command_description = None\<rparr>"
  have 1: "allowedCommands ?config = Some [js ''ping'']" by simp
  have 2: "resolveCommand (command ?config) (JStr (js ''/'')) = Inr (js ''rm -rf /'')"
    by (simp add: resolveCommand_def js_def)
  have 3: "\<not> list_ex (\<lambda>p. startsWith (js ''rm -rf /'') p) [js ''ping'']"
    by (simp add: startsWith_def js_def)
  have 4: "securityAllowCommands (Some \<lparr>allowCommands = True, allowScripts = False\<rparr>)"
    by (simp add: securityAllowCommands_def)
  have 5: "\<not> securityAllowCommands None"
    by (simp add: securityAllowCommands_def)
  show ?thesis
    using command_not_allowed [OF 1 2 3, of "\<lparr>spawned = [], requested = []\<rparr>" "js ''run''"
        "\<lparr>execAsync = (\<lambda>c t b. Inr (js ''done'', [])), fetch = (\<lambda>u r. Inl (Error [])),
            JSON_parse = (\<lambda>s. None)\<rparr>"
        "Some \<lparr>allowCommands = True, allowScripts = False\<rparr>" FunctionRegistry_new]
      command_not_allowed [OF 1 2 3, of "\<lparr>spawned = [], requested = []\<rparr>" "js ''run''"
        "\<lparr>execAsync = (\<lambda>c t b. Inr (js ''done'', [])), fetch = (\<lambda>u r. Inl (Error [])),
            JSON_parse = (\<lambda>s. None)\<rparr>"
        None FunctionRegistry_new] 4 5
    by (simp add: commandFailure_def js_def)
qed

text \<open>
  C5 as stated fails: it names no flag, and with \<^verbatim>\<open>allowCommands\<close> off, as it is unless
  the environment turns it on, the command \<^verbatim>\<open>rm -rf /\<close> that no prefix of the allow-list
  \<^verbatim>\<open>["ping"]\<close> starts is refused with the message of the flag, not with a message that
  the command is not allowed.
\<close>

theorem command_not_allowed_counterexample:
  "map_option (\<lambda>f. callHandler f (JStr (js ''/'')) \<lparr>spawned = [], requested = []\<rparr>)
     (get (js ''run'')
        (registerCommand
           \<lparr>execAsync = (\<lambda>c t b. Inr (js ''done'', [])), fetch = (\<lambda>u r. Inl (Error [])),
            JSON_parse = (\<lambda>s. None)\<rparr>
           (Some \<lparr>allowCommands = False, allowScripts = False\<rparr>) (js ''run'')
           \<lparr>command = DynamicCommand (\<lambda>a. Inr (js ''rm -rf '' @ (case a of JStr s \<Rightarrow> s | _ \<Rightarrow> []))),
            allowedCommands = Some [js ''ping''], timeout = None, maxBuffer = None,
            command_parseArgs = Some trim_parseArgs, command_description = None\<rparr>
           FunctionRegistry_new))
   = Some (Inr (JObj [(js ''success'', JBool False),
                      (js ''error'', JStr (js ''Command execution is disabled for security'')),
                      (js ''command'', JStr (js ''dynamic''))]),
           \<lparr>spawned = [], requested = []\<rparr>)
   \<and> js ''Command execution is disabled for security'' \<noteq> js ''Command not allowed: rm -rf /''
   \<and> \<not> list_ex (\<lambda>p. startsWith (js ''rm -rf /'') p) [js ''ping'']"
  by (simp add: registerCommand_def get_register callHandler_def commandHandler_def
      commandFailure_def securityAllowCommands_def startsWith_def js_def)


text \<open>
  C6, as amended. For every API function, when the request is answered by a response with
  a status in the 2xx range (\<^verbatim>\<open>response.ok\<close>) whose body text \<^verbatim>\<open>JSON.parse\<close> refuses, the
  handler returns \<^verbatim>\<open>{success: false, error: "Invalid response format"}\<close>, a value and not
  an error, whatever the headers of the response.
\<close>

theorem api_invalid_json:
  assumes "resolveEndpoint (endpoint config) a = Inr url"
    and "buildBody (api_body config) a = Inr b"
    and "fetch ev url (apiOptions config b) = Inr resp"
    and "ok resp"
    and "bodyText resp = Inr txt"
    and "JSON_parse ev txt = None"
  shows "map_option (\<lambda>f. fst (callHandler f a w)) (get nm (registerAPI ev nm config functions))
         = Some (Inr (JObj [(js ''success'', JBool False),
                            (js ''error'', JStr (js ''Invalid response format''))]))"
  using assms
  by (simp add: registerAPI_def get_register callHandler_def apiHandler_def Let_def)


theorem api_invalid_json_witness:
  "map_option (\<lambda>f. fst (callHandler f JNull \<lparr>spawned = [], requested = []\<rparr>))
     (get (js ''items'')
        (registerAPI
           \<lparr>execAsync = (\<lambda>c t b. Inl (Error [])),
            fetch = (\<lambda>u r. Inr \<lparr>ok = True, status = 200, statusText = js ''OK'',
                          resp_headers = [(js ''Content-Type'', js ''application/json'')],
                          bodyText = Inr (js ''<html>oops</html>'')\<rparr>),
            JSON_parse = (\<lambda>s. None)\<rparr>
           (js ''items'')
           \<lparr>endpoint = StaticEndpoint (js ''http://api.test/items''), api_method = None,
            api_headers = [], api_body = None, transform = None, api_parseArgs = None,
            api_description = None\<rparr>
           FunctionRegistry_new))
   = Some (Inr (JObj [(js ''success'', JBool False),
                      (js ''error'', JStr (js ''Invalid response format''))]))"
proof -
  let ?resp = "\<lparr>ok = True, status = 200, statusText = js ''OK'',
                 resp_headers = [(js ''Content-Type'', js ''application/json'')],
                 bodyText = Inr (js ''<html>oops</html>'')\<rparr>"
  let ?ev = "\<lparr>execAsync = (\<lambda>c t b. Inl (Error [])), fetch = (\<lambda>u r. Inr ?resp),
              JSON_parse = (\<lambda>s. None)\<rparr>"
  let ?config = "\<lparr>endpoint = StaticEndpoint (js ''http://api.test/items''), api_method = None,
            api_headers = [], api_body = None, transform = None, api_parseArgs = None,
            api_description = None\<rparr>"
  have 1: "resolveEndpoint (endpoint ?config) JNull = Inr (js ''http://api.test/items'')"
    by (simp add: resolveEndpoint_def)
  have 2: "buildBody (api_body ?config) JNull = Inr None"
    by (simp add: buildBody_def)
  have 3: "fetch ?ev (js ''http://api.test/items'') (apiOptions ?config None) = Inr ?resp"
    by simp
  have 4: "ok ?resp" by simp
  have 5: "bodyText ?resp = Inr (js ''<html>oops</html>'')" by simp
  have 6: "JSON_parse ?ev (js ''<html>oops</html>'') = None" by simp
  show ?thesis
    using api_invalid_json [OF 1 2 3 4 5 6] by simp
qed


text \<open>
  C6 as stated fails: the status is tested before the body is read, so a response with
  status 500 and a body that is no JSON yields the error \<^verbatim>\<open>"HTTP 500: Internal Server Error"\<close>.
\<close>

theorem api_invalid_json_counterexample:
  "map_option (\<lambda>f. fst (callHandler f JNull \<lparr>spawned = [], requested = []\<rparr>))
     (get (js ''items'')
        (registerAPI
           \<lparr>execAsync = (\<lambda>c t b. Inl (Error [])),
            fetch = (\<lambda>u r. Inr \<lparr>ok = False, status = 500, statusText = js ''Internal Server Error'',
                          resp_headers = [(js ''Content-Type'', js ''application/json'')],
                          bodyText = Inr (js ''<html>oops</html>'')\<rparr>),
            JSON_parse = (\<lambda>s. None)\<rparr>
           (js ''items'')
           \<lparr>endpoint = StaticEndpoint (js ''http://api.test/items''), api_method = None,
            api_headers = [], api_body = None, transform = None, api_parseArgs = None,
            api_description = None\<rparr>
           FunctionRegistry_new))
   = Some (Inr (JObj [(js ''success'', JBool False),
                      (js ''error'', JStr (js ''HTTP 500: Internal Server Error''))]))"
  by (simp add: registerAPI_def get_register callHandler_def apiHandler_def Let_def
      resolveEndpoint_def buildBody_def apiFailure_def js_def showNat.simps)


section \<open>Properties of detection\<close>

lemma js_colon: "js '':'' = [0x3A]"
  by (simp add: js_def)

lemma F_not_space: "\<not> isWhiteSpace 70"
  by (simp add: isWhiteSpace_def isLineTerminator_def)

lemma trim_call_text:
  assumes "a \<noteq> []" "\<not> isWhiteSpace (last a)"
  shows "trim (js ''FUNCTION:'' @ n @ js '':'' @ a) = js ''FUNCTION:'' @ n @ 0x3A # a"
proof -
  let ?s = "js ''FUNCTION:'' @ n @ js '':'' @ a"
  have "?s \<noteq> []" by (simp add: js_FUNCTION)
  moreover have "\<not> isWhiteSpace (hd ?s)" by (simp add: js_FUNCTION F_not_space)
  moreover have "\<not> isWhiteSpace (last ?s)" using assms by (simp add: js_colon)
  ultimately have "trim ?s = ?s" by (rule trim_id)
  then show ?thesis by (simp add: js_colon)
qed


text \<open>
  C1, as amended. For a name \<open>n\<close> of word characters and an argument text \<open>a\<close> that is not
  empty, holds no line terminator and does not end in white space, the pattern captures
  exactly \<open>n\<close> and \<open>a\<close> from \<^verbatim>\<open>"FUNCTION:" + n + ":" + a\<close>; when \<open>n\<close> is registered and its
  parser returns \<open>v\<close> on \<open>a\<close>, detection returns the call of \<open>n\<close> with \<open>v\<close>, in both
  frameworks.
\<close>

theorem detect_registered_call:
  assumes "n \<noteq> []" "list_all isWordChar n"
    and "a \<noteq> []" "list_all (\<lambda>d. \<not> isLineTerminator d) a" "\<not> isWhiteSpace (last a)"
  shows "functionPattern (trim (js ''FUNCTION:'' @ n @ js '':'' @ a)) = Some (n, a)
    \<and> (get n registry = Some e \<and> callParseArgs e a = Inr v \<longrightarrow>
         detectFunctionCall functionPattern registry (JStr (js ''FUNCTION:'' @ n @ js '':'' @ a))
           = Inr (Some \<lparr>fn = n, args = v\<rparr>))
    \<and> (map_of fobj n = Some d \<and> callParseArgs d a = Inr v' \<longrightarrow>
         fw_detectFunctionCall functionPattern fobj (JStr (js ''FUNCTION:'' @ n @ js '':'' @ a))
           = Inr (Some \<lparr>fn = n, args = v'\<rparr>))"
proof -
  have m: "functionPattern (trim (js ''FUNCTION:'' @ n @ js '':'' @ a)) = Some (n, a)"
    using assms by (simp add: trim_call_text functionPattern_match)
  have ne: "js ''FUNCTION:'' @ n @ js '':'' @ a \<noteq> []"
    by (simp add: js_FUNCTION)
  show ?thesis
    using m ne by (simp add: detectFunctionCall_def fw_detectFunctionCall_def objectMember_def)
qed


theorem detect_registered_call_witness:
  "detectFunctionCall functionPattern FunctionRegistry_new
     (JStr (js ''FUNCTION:'' @ js ''showAlert'' @ js '':'' @ js ''Build complete''))
     = Inr (Some \<lparr>fn = js ''showAlert'', args = JStr (js ''Build complete'')\<rparr>)
   \<and> fw_detectFunctionCall functionPattern (registerBrowserFunctions [])
     (JStr (js ''FUNCTION:'' @ js ''showAlert'' @ js '':'' @ js ''Build complete''))
     = Inr (Some \<lparr>fn = js ''showAlert'', args = JStr (js ''Build complete'')\<rparr>)"
proof -
  have 1: "js ''showAlert'' \<noteq> []" by (simp add: js_def)
  have 2: "list_all isWordChar (js ''showAlert'')" by (simp add: js_def isWordChar_def)
  have 3: "js ''Build complete'' \<noteq> []" by (simp add: js_def)
  have 4: "list_all (\<lambda>d. \<not> isLineTerminator d) (js ''Build complete'')"
    by (simp add: js_def isLineTerminator_def)
  have 5: "\<not> isWhiteSpace (last (js ''Build complete''))"
    by (simp add: js_def isWhiteSpace_def isLineTerminator_def)
  have 6: "trim (js ''Build complete'') = js ''Build complete''"
    by (simp add: trim_def js_def isWhiteSpace_def isLineTerminator_def)
  show ?thesis
    using detect_registered_call [OF 1 2 3 4 5, where registry = FunctionRegistry_new
        and fobj = "registerBrowserFunctions []"
        and v = "JStr (js ''Build complete'')" and v' = "JStr (js ''Build complete'')"
        and e = "\<lparr>handler = Some showAlert_handler, parseArgs = Some trim_parseArgs,
          description = Some (js ''Show an alert dialog in the browser''),
          type = js ''browser'', name = js ''showAlert''\<rparr>"
        and d = "\<lparr>handler = Some showAlert_handler, parseArgs = Some trim_parseArgs,
          description = None\<rparr>"]
    by (simp add: builtin_entries browser_members callParseArgs_def trim_parseArgs_def 6)
qed


text \<open>
  C1 as stated fails: the registered \<^verbatim>\<open>showAlert\<close> with the empty argument text, or with
  an argument text of two lines, is not detected (\<^verbatim>\<open>(.+)$\<close> needs one code unit at least
  and takes no line terminator), and a registered function whose parser throws is not
  detected either.
\<close>

lemma pat_empty: "functionPattern (trim (js ''FUNCTION:showAlert:'')) = None"
  by (simp add: functionPattern_def trim_def js_def isWhiteSpace_def isLineTerminator_def isWordChar_def)

lemma pat_nl: "functionPattern (trim (js ''FUNCTION:showAlert:a'' @ [0x0A] @ js ''b'')) = None"
  by (simp add: functionPattern_def trim_def js_def isWhiteSpace_def isLineTerminator_def isWordChar_def)

lemma pat_bad: "functionPattern (trim (js ''FUNCTION:bad:x'')) = Some (js ''bad'', js ''x'')"
  by (simp add: functionPattern_def trim_def js_def isWhiteSpace_def isLineTerminator_def
      isWordChar_def)

theorem detect_registered_call_counterexample:
  "detectFunctionCall functionPattern FunctionRegistry_new (JStr (js ''FUNCTION:showAlert:''))
     = Inr None
   \<and> detectFunctionCall functionPattern FunctionRegistry_new
       (JStr (js ''FUNCTION:showAlert:a'' @ [0x0A] @ js ''b'')) = Inr None
   \<and> detectFunctionCall functionPattern
        (register (js ''api'') (js ''bad'')
           \<lparr>handler = None, parseArgs = Some (\<lambda>raw. Inl (Error (js ''bad arguments''))),
            description = None\<rparr> FunctionRegistry_new)
        (JStr (js ''FUNCTION:bad:x'')) = Inr None"
  using pat_empty pat_nl pat_bad
  by (simp add: detectFunctionCall_def get_def register_def map_of_map_set callParseArgs_def)


text \<open>
  C2. When the pattern matches the trimmed text and the captured name is not registered,
  or it is registered and its parser throws on the captured argument text, detection
  returns \<^verbatim>\<open>null\<close>: a value, not an error. This holds for every pattern the configuration
  may supply, in both frameworks. The chat route then treats the message as plain text:
  it writes nothing of its own, no status and no error event, and hands the untouched
  response to \<^verbatim>\<open>streamLLMResponse\<close>, whose outcome is the outcome of the request.
\<close>

theorem detect_silent:
  assumes "pattern (trim t) = Some (n, a)"
  shows "(get n registry = None \<or> (\<exists>e err. get n registry = Some e \<and> callParseArgs e a = Inl err)
          \<longrightarrow> detectFunctionCall pattern registry (JStr t) = Inr None
              \<and> chat_stream pattern registry streamLLMResponse (JStr t) r w
                  = (case streamLLMResponse r w of
                       (None, r', w') \<Rightarrow> (r', w')
                     | (Some e, r', w') \<Rightarrow> (failWith e r', w')))
       \<and> (map_of fobj n = None \<or> (\<exists>d err. map_of fobj n = Some d \<and> callParseArgs d a = Inl err)
          \<longrightarrow> fw_detectFunctionCall pattern fobj (JStr t) = Inr None)"
proof -
  have d: "detectFunctionCall pattern registry (JStr t) = Inr None"
    if "get n registry = None \<or> (\<exists>e err. get n registry = Some e \<and> callParseArgs e a = Inl err)"
    using that assms by (auto simp: detectFunctionCall_def)
  have f: "fw_detectFunctionCall pattern fobj (JStr t) = Inr None"
    if "map_of fobj n = None \<or> (\<exists>d err. map_of fobj n = Some d \<and> callParseArgs d a = Inl err)"
    using that assms by (auto simp: fw_detectFunctionCall_def objectMember_def)
  show ?thesis
    using d f by (simp add: chat_stream_def)
qed


theorem detect_silent_witness:
  "detectFunctionCall functionPattern FunctionRegistry_new (JStr (js ''FUNCTION:nope:x'')) = Inr None
   \<and> chat_stream functionPattern FunctionRegistry_new
        (\<lambda>r w. (None, res_end (res_write Done (res_write (Token (JStr (js ''Hi''))) r)), w))
        (JStr (js ''FUNCTION:nope:x'')) fresh \<lparr>spawned = [], requested = []\<rparr>
       = (\<lparr>written = [Token (JStr (js ''Hi'')), Done], writableEnded = True, refused = []\<rparr>,
          \<lparr>spawned = [], requested = []\<rparr>)
   \<and> fw_detectFunctionCall functionPattern (registerBrowserFunctions []) (JStr (js ''FUNCTION:nope:x''))
       = Inr None
   \<and> detectFunctionCall functionPattern
        (register (js ''api'') (js ''bad'')
           \<lparr>handler = None, parseArgs = Some (\<lambda>raw. Inl (Error (js ''bad arguments''))),
            description = None\<rparr> FunctionRegistry_new)
        (JStr (js ''FUNCTION:bad:x'')) = Inr None
   \<and> chat_stream functionPattern
        (register (js ''api'') (js ''bad'')
           \<lparr>handler = None, parseArgs = Some (\<lambda>raw. Inl (Error (js ''bad arguments''))),
            description = None\<rparr> FunctionRegistry_new)
        (\<lambda>r w. (None, res_end (res_write Done (res_write (Token (JStr (js ''Hi''))) r)), w))
        (JStr (js ''FUNCTION:bad:x'')) fresh \<lparr>spawned = [], requested = []\<rparr>
       = (\<lparr>written = [Token (JStr (js ''Hi'')), Done], writableEnded = True, refused = []\<rparr>,
          \<lparr>spawned = [], requested = []\<rparr>)"
proof -
  have p1: "functionPattern (trim (js ''FUNCTION:nope:x'')) = Some (js ''nope'', js ''x'')"
    by (simp add: functionPattern_def trim_def js_def isWhiteSpace_def isLineTerminator_def
        isWordChar_def)
  note p2 = pat_bad
  have g1: "get (js ''nope'') FunctionRegistry_new = None"
    by (simp add: FunctionRegistry_new_def registerBuiltInFunctions_def register_def get_def js_def)
  have g2: "map_of (registerBrowserFunctions []) (js ''nope'') = None"
    by (simp add: registerBrowserFunctions_def spread_def browserFunctions_def js_def)
  have g3: "get (js ''bad'') (register (js ''api'') (js ''bad'')
           \<lparr>handler = None, parseArgs = Some (\<lambda>raw. Inl (Error (js ''bad arguments''))),
            description = None\<rparr> FunctionRegistry_new)
       = Some \<lparr>handler = None, parseArgs = Some (\<lambda>raw. Inl (Error (js ''bad arguments''))),
            description = None, type = js ''api'', name = js ''bad''\<rparr>"
    by (simp add: register_def get_def map_of_map_set)
  show ?thesis
    using detect_silent [where pattern = functionPattern and t = "js ''FUNCTION:nope:x''"
        and n = "js ''nope''" and a = "js ''x''" and registry = FunctionRegistry_new
        and fobj = "registerBrowserFunctions []" and r = fresh
        and w = "\<lparr>spawned = [], requested = []\<rparr>"
        and streamLLMResponse =
          "\<lambda>r w. (None, res_end (res_write Done (res_write (Token (JStr (js ''Hi''))) r)), w)",
        OF p1]
      detect_silent [where pattern = functionPattern and t = "js ''FUNCTION:bad:x''"
        and n = "js ''bad''" and a = "js ''x''" and fobj = "[]" and r = fresh
        and w = "\<lparr>spawned = [], requested = []\<rparr>"
        and streamLLMResponse =
          "\<lambda>r w. (None, res_end (res_write Done (res_write (Token (JStr (js ''Hi''))) r)), w)"
        and registry = "register (js ''api'') (js ''bad'')
           \<lparr>handler = None, parseArgs = Some (\<lambda>raw. Inl (Error (js ''bad arguments''))),
            description = None\<rparr> FunctionRegistry_new", OF p2]
    by (simp add: g1 g2 g3 callParseArgs_def fresh_def res_write_def res_end_def)
qed


text \<open>
  C10. In the first framework file, detection of an \<open>undefined\<close>, \<^verbatim>\<open>null\<close> or empty
  text returns \<^verbatim>\<open>null\<close> and throws nothing, whatever the pattern and the functions.
\<close>

theorem fw_detect_absent:
  "fw_detectFunctionCall pattern functions JUndefined = Inr None
   \<and> fw_detectFunctionCall pattern functions JNull = Inr None
   \<and> fw_detectFunctionCall pattern functions (JStr []) = Inr None"
  by (simp add: fw_detectFunctionCall_def)

text \<open>
  The registry-based framework has no such guard: there \<^verbatim>\<open>text.trim()\<close> throws for a
  text that is no string, and its route answers with an error event.
\<close>

lemma detectFunctionCall_not_a_string:
  "isl (detectFunctionCall pattern registry JUndefined)
   \<and> isl (detectFunctionCall pattern registry JNull)"
  by (simp add: detectFunctionCall_def)



section \<open>Properties of the chat route\<close>

lemma detect_showAlert_build:
  "detectFunctionCall functionPattern FunctionRegistry_new
     (JStr (js ''FUNCTION:showAlert:Build complete''))
   = Inr (Some \<lparr>fn = js ''showAlert'', args = JStr (js ''Build complete'')\<rparr>)"
proof -
  have "functionPattern (trim (js ''FUNCTION:showAlert:Build complete''))
        = Some (js ''showAlert'', js ''Build complete'')"
    by (simp add: functionPattern_def trim_def js_def isWhiteSpace_def isLineTerminator_def
        isWordChar_def)
  moreover have "trim (js ''Build complete'') = js ''Build complete''"
    by (simp add: trim_def js_def isWhiteSpace_def isLineTerminator_def)
  ultimately show ?thesis
    by (simp add: detectFunctionCall_def builtin_entries callParseArgs_def trim_parseArgs_def)
qed

lemma confirmation_alert:
  "getBrowserActionConfirmation (JStr (js ''alert'')) (JObj [(js ''message'', JStr s)])
   = Inr (JStr (js ''Alert displayed: '' @ [0x22] @ s @ [0x22]))"
  by (simp add: getBrowserActionConfirmation_def objectMember_def js_def)


text \<open>
  C8. The message \<^verbatim>\<open>"FUNCTION:showAlert:Build complete"\<close>, posted to the chat route of a
  framework with the built-in functions and the default pattern, puts exactly four events
  on the connection: the status \<^verbatim>\<open>"Processing your request..."\<close>, the browser action
  \<^verbatim>\<open>alert\<close> with the data \<^verbatim>\<open>{message: "Build complete"}\<close>, the token
  \<^verbatim>\<open>Alert displayed: "Build complete"\<close>, and \<^verbatim>\<open>done\<close>; the response is then ended, and
  the world is untouched. The branch for ordinary messages is not entered, whatever it is.
\<close>

theorem showAlert_scenario:
  \<open>chat_stream functionPattern FunctionRegistry_new streamLLMResponse
     (JStr (js ''FUNCTION:showAlert:Build complete'')) fresh w
   = (\<lparr>written =
         [Status (js ''Processing your request...''),
          BrowserAction (JStr (js ''alert'')) (JObj [(js ''message'', JStr (js ''Build complete''))]),
          Token (JStr (js ''Alert displayed: "Build complete"'')),
          Done],
       writableEnded = True, refused = []\<rparr>, w)\<close>
proof -
  have q: \<open>js ''Alert displayed: "Build complete"''
           = js ''Alert displayed: '' @ [0x22] @ js ''Build complete'' @ [0x22]\<close>
    by (simp add: js_def)
  have h: "callHandler \<lparr>handler = Some showAlert_handler, parseArgs = Some trim_parseArgs,
        description = Some (js ''Show an alert dialog in the browser''),
        type = js ''browser'', name = js ''showAlert''\<rparr> (JStr (js ''Build complete'')) w
     = (Inr (JObj [(js ''success'', JBool True), (js ''browserAction'', JStr (js ''alert'')),
                 (js ''data'', JObj [(js ''message'', JStr (js ''Build complete''))])]), w)"
    by (simp add: callHandler_def showAlert_handler_def)
  have r: "relayResult (JObj [(js ''success'', JBool True), (js ''browserAction'', JStr (js ''alert'')),
                 (js ''data'', JObj [(js ''message'', JStr (js ''Build complete''))])])
             (res_write (Status (js ''Processing your request...'')) fresh)
     = (None, \<lparr>written =
         [Status (js ''Processing your request...''),
          BrowserAction (JStr (js ''alert'')) (JObj [(js ''message'', JStr (js ''Build complete''))]),
          Token (JStr (js ''Alert displayed: '' @ [0x22] @ js ''Build complete'' @ [0x22])),
          Done],
       writableEnded = True, refused = []\<rparr>)"
    by (simp add: relayResult_def confirmation_alert res_write_def res_end_def fresh_def)
      (simp add: js_def)
  show ?thesis
    by (simp add: chat_stream_def detect_showAlert_build builtin_entries h r q)
qed


section \<open>Properties of the stream relay\<close>

text \<open>
  What is on the connection is framed: while the response is open no terminal event
  (\<^verbatim>\<open>done\<close> or \<^verbatim>\<open>error\<close>) has been written, and once it is ended the last event written,
  and no other, is terminal. A settled promise has an ended response.
\<close>

fun terminal :: "event \<Rightarrow> bool" where
  "terminal Done = True"
| "terminal (ErrorEvent m) = True"
| "terminal _ = False"

definition framed :: "sse \<Rightarrow> bool" where
  "framed r =
     (if writableEnded r
      then written r \<noteq> [] \<and> terminal (last (written r))
           \<and> list_all (\<lambda>e. \<not> terminal e) (butlast (written r))
      else list_all (\<lambda>e. \<not> terminal e) (written r))"

definition closedWhenSettled :: "relay \<Rightarrow> bool" where
  "closedWhenSettled st = (promise st = Pending \<or> writableEnded (res st))"

lemma splitLines_nonempty: "splitLines s \<noteq> []"
  by (induction s) (auto split: list.splits)

lemma splitLines_no_lf: "0x0A \<notin> set l \<Longrightarrow> splitLines l = [l]"
  by (induction l) auto

lemma splitLines_line: "0x0A \<notin> set l \<Longrightarrow> splitLines (l @ [0x0A]) = [l, []]"
  by (induction l) auto




lemma framed_token: "framed r \<Longrightarrow> framed (res_write (Token v) r)"
  by (auto simp: framed_def res_write_def)

lemma framed_terminate:
  "framed r \<Longrightarrow> terminal e \<Longrightarrow> framed (res_end (res_write e r))"
  by (auto simp: framed_def res_write_def res_end_def)

lemma processLines_invariant:
  assumes tok: "\<And>st v. P st \<Longrightarrow> P (st\<lparr>res := res_write (Token v) (res st)\<rparr>)"
    and fin: "\<And>st. P st \<Longrightarrow>
                P (st\<lparr>timerSet := False, res := res_end (res_write Done (res st)),
                     promise := settle Resolved (promise st)\<rparr>)"
  shows "P st \<Longrightarrow> P (processLines parse ls st)"
proof (induction ls arbitrary: st)
  case Nil
  then show ?case by simp
next
  case (Cons line rest)
  show ?case
  proof (cases "trim line = []")
    case True
    with Cons show ?thesis by simp
  next
    case blank: False
    show ?thesis
    proof (cases "parse line")
      case None
      with blank Cons show ?thesis by simp
    next
      case (Some parsed)
      show ?thesis
      proof (cases "getProp parsed (js ''response'')")
        case (Inl e)
        with blank Some Cons show ?thesis by simp
      next
        case (Inr response)
        define st1 where
          "st1 = (if truthy response then st\<lparr>res := res_write (Token response) (res st)\<rparr> else st)"
        have st1: "P st1"
          using Cons.prems tok by (simp add: st1_def)
        show ?thesis
        proof (cases "getProp parsed (js ''done'')")
          case e: (Inl e)
          have "processLines parse (line # rest) st = processLines parse rest st1"
            using blank Some Inr e by (simp add: st1_def)
          then show ?thesis using Cons.IH [OF st1] by simp
        next
          case d: (Inr d)
          show ?thesis
          proof (cases "truthy d")
            case True
            have "processLines parse (line # rest) st =
                    st1\<lparr>timerSet := False, res := res_end (res_write Done (res st1)),
                        promise := settle Resolved (promise st1)\<rparr>"
              using blank Some Inr d True by (simp add: st1_def)
            then show ?thesis using fin [OF st1] by simp
          next
            case False
            have "processLines parse (line # rest) st = processLines parse rest st1"
              using blank Some Inr d False by (simp add: st1_def)
            then show ?thesis using Cons.IH [OF st1] by simp
          qed
        qed
      qed
    qed
  qed
qed

lemma processLines_framed:
  "framed (res st) \<Longrightarrow> framed (res (processLines parse ls st))"
  by (rule processLines_invariant [where P = "\<lambda>st. framed (res st)"])
    (simp_all add: framed_token framed_terminate)

lemma step_framed: "framed (res st) \<Longrightarrow> framed (res (step parse st s))"
  by (cases s) (auto simp: onData_def onEnd_def onError_def onTimeout_def Let_def
      processLines_framed framed_terminate)

lemma relay_framed: "framed (res st) \<Longrightarrow> framed (res (foldl (step parse) st ss))"
  by (induction ss arbitrary: st) (simp_all add: step_framed)

lemma processLines_settled:
  "closedWhenSettled st \<Longrightarrow> closedWhenSettled (processLines parse ls st)"
  by (rule processLines_invariant [where P = closedWhenSettled])
    (auto simp: closedWhenSettled_def res_write_def res_end_def)

lemma step_settled:
  assumes "closedWhenSettled st"
  shows "closedWhenSettled (step parse st s)"
proof (cases s)
  case (Data chunk)
  have "closedWhenSettled (st\<lparr>buffer := last (splitLines (buffer st @ chunk))\<rparr>)"
    using assms by (simp add: closedWhenSettled_def)
  then show ?thesis
    by (simp add: Data onData_def Let_def processLines_settled)
next
  case End
  then show ?thesis
    by (simp add: onEnd_def closedWhenSettled_def res_write_def res_end_def)
next
  case (StreamError e)
  then show ?thesis
    by (simp add: onError_def closedWhenSettled_def res_write_def res_end_def)
next
  case Timeout
  then show ?thesis
    using assms by (simp add: onTimeout_def closedWhenSettled_def res_write_def res_end_def)
qed

lemma relay_settled: "closedWhenSettled st \<Longrightarrow> closedWhenSettled (foldl (step parse) st ss)"
  by (induction ss arbitrary: st) (simp_all add: step_settled)

lemma relay_terminal_frame:
  "framed (res (processOllamaStream parse ss fresh))
   \<and> closedWhenSettled (processOllamaStream parse ss fresh)"
proof -
  let ?st = "\<lparr>buffer = [], res = fresh, timerSet = True, promise = Pending\<rparr>"
  have "framed (res ?st)"
    by (simp add: framed_def fresh_def)
  moreover have "closedWhenSettled ?st"
    by (simp add: closedWhenSettled_def)
  ultimately show ?thesis
    unfolding processOllamaStream_def by (simp only: relay_framed relay_settled)
qed















text \<open>
  The \<^verbatim>\<open>data\<close> callback does not look at \<^verbatim>\<open>res.writableEnded\<close>: a record that arrives
  after the timeout has ended the response is written to the ended response, where the
  runtime refuses it, so the connection holds the timeout's error event and nothing else.
\<close>

lemma data_after_end_refused:
  assumes "0x0A \<notin> set l" and "trim l \<noteq> []"
    and "parse l = Some (JObj [(js ''response'', JStr t), (js ''done'', JBool True)])"
    and "t \<noteq> []"
  shows "res (processOllamaStream parse [Timeout, Data (l @ [0x0A])] fresh)
         = \<lparr>written = [ErrorEvent (JStr (js ''Response timeout''))], writableEnded = True,
            refused = [Token (JStr t), Done]\<rparr>"
proof -
  let ?st = "onTimeout \<lparr>buffer = [], res = fresh, timerSet = True, promise = Pending\<rparr>"
  have t: "?st = \<lparr>buffer = [],
             res = \<lparr>written = [ErrorEvent (JStr (js ''Response timeout''))], writableEnded = True,
                    refused = []\<rparr>,
             timerSet = False, promise = RejectedWith (Error (js ''Timeout''))\<rparr>"
    by (simp add: onTimeout_def fresh_def res_write_def res_end_def settle_def)
  have js_ne: "js ''response'' \<noteq> js ''done''"
    by (simp add: js_def)
  have "res (onData parse (l @ [0x0A]) ?st)
        = \<lparr>written = [ErrorEvent (JStr (js ''Response timeout''))], writableEnded = True,
            refused = [Token (JStr t), Done]\<rparr>"
    using assms js_ne
    by (simp add: t onData_def splitLines_line res_write_def res_end_def)
  then show ?thesis
    by (simp add: processOllamaStream_def)
qed

end
